theory Spec2Isabelle
  imports Main "HOL-Library.Sublist"
begin

section \<open>Values exchanged over HTTP\<close>

text \<open>
  The service of \<^verbatim>\<open>main.py\<close> is a webhook handler: it reads a JSON body, calls the
  REST interface of a source-control platform and, at the end, an evaluator URL.
  The values it handles are the Python objects that \<^verbatim>\<open>json()\<close> returns.
  \<^verbatim>\<open>JNull\<close> is Python's \<^verbatim>\<open>None\<close>. A Python float is kept as the double it is:
  mantissa and binary exponent, an infinity with its sign, or not-a-number.
  Strings are the byte sequences of their UTF-8 encoding, so that
  \<^verbatim>\<open>str.encode()\<close> is the identity.
\<close>

datatype pyfloat = Finite int int | Infinity bool | NaN

datatype json =
    JNull
  | JBool bool
  | JInt int
  | JFloat pyfloat
  | JStr string
  | JArr "json list"
  | JObj "(string \<times> json) list"

text \<open>The exceptions the code can meet; the network ones come from \<^verbatim>\<open>requests\<close>.\<close>

datatype exn = RequestException | JSONDecodeError | AttributeError | TypeError

text \<open>
  A response of \<^verbatim>\<open>requests\<close>: its status code and what \<^verbatim>\<open>r.json()\<close> gives,
  \<open>None\<close> when that call raises because the body is not JSON.
\<close>

record response =
  status_code :: int
  json_body :: "json option"

datatype outcome = Raises | Responds response

text \<open>
  Everything the program does to the outside is an event of a trace: a call through
  \<^verbatim>\<open>gh_request\<close> (method, URL, headers, JSON payload), the evaluator POST
  (URL, payload) and \<^verbatim>\<open>time.sleep\<close>.
\<close>

datatype event =
    GhRequest string string "(string \<times> string) list" "json option"
  | EvalPost json json
  | Sleep nat

type_synonym trace = "event list"

text \<open>
  The environment variables read at import time; \<open>None\<close> is an unset variable.
\<close>

record config =
  GITHUB_TOKEN :: "string option"
  GITHUB_USER :: "string option"
  SECRET :: "string option"

text \<open>
  The surroundings of one run: what the network answers to a call, given the trace
  up to and including that call; \<^verbatim>\<open>int(time.time())\<close>;
  \<^verbatim>\<open>time.localtime().tm_year\<close>; and how an f-string renders a value that is not
  a string (Python's \<^verbatim>\<open>format\<close>, which no claim depends on).
\<close>

record world =
  respond :: "trace \<Rightarrow> outcome"
  unix_time :: int
  tm_year :: int
  format_value :: "json \<Rightarrow> string"

type_synonym 'a io = "trace \<Rightarrow> (exn + 'a) \<times> trace"

definition return_io :: "'a \<Rightarrow> 'a io" where
  "return_io x tr = (Inr x, tr)"

definition bind_io :: "'a io \<Rightarrow> ('a \<Rightarrow> 'b io) \<Rightarrow> 'b io" where
  "bind_io m f tr = (case m tr of (Inl e, tr') \<Rightarrow> (Inl e, tr') | (Inr x, tr') \<Rightarrow> f x tr')"

section \<open>Python primitives\<close>

definition dict_get :: "(string \<times> json) list \<Rightarrow> string \<Rightarrow> json \<Rightarrow> json" where
  "dict_get kv k dflt = (case map_of kv k of None \<Rightarrow> dflt | Some v \<Rightarrow> v)"

fun truthy :: "json \<Rightarrow> bool" where
  "truthy JNull = False"
| "truthy (JBool b) = b"
| "truthy (JInt n) = (n \<noteq> 0)"
| "truthy (JFloat (Finite m e)) = (m \<noteq> 0)"
| "truthy (JFloat _) = True"
| "truthy (JStr s) = (s \<noteq> [])"
| "truthy (JArr xs) = (xs \<noteq> [])"
| "truthy (JObj kv) = (kv \<noteq> [])"

definition py_or :: "json \<Rightarrow> json \<Rightarrow> json" where
  "py_or a b = (if truthy a then a else b)"

text \<open>
  \<^verbatim>\<open>str.lower\<close> on the ASCII letters. A byte outside ASCII is left as it is: no
  character outside ASCII lowers to a letter of \<^verbatim>\<open>already exists\<close>, so the
  substring test below is not affected.
\<close>

definition lower_char :: "char \<Rightarrow> char" where
  "lower_char c =
     (let n = (of_char c :: nat) in if 65 \<le> n \<and> n \<le> 90 then char_of (n + 32) else c)"

definition lower :: "string \<Rightarrow> string" where
  "lower s = map lower_char s"

text \<open>Python's \<^verbatim>\<open>needle in hay\<close> on strings.\<close>

fun contains :: "string \<Rightarrow> string \<Rightarrow> bool" where
  "contains needle [] = (needle = [])"
| "contains needle (c # cs) = (prefix needle (c # cs) \<or> contains needle cs)"

definition digit_char :: "nat \<Rightarrow> char" where
  "digit_char d = char_of (48 + d)"

fun str_nat :: "nat \<Rightarrow> string" where
  "str_nat n = (if n < 10 then [digit_char n] else str_nat (n div 10) @ [digit_char (n mod 10)])"

declare str_nat.simps [simp del]

definition str_int :: "int \<Rightarrow> string" where
  "str_int i = (if i < 0 then CHR ''-'' # str_nat (nat (- i)) else str_nat (nat i))"

text \<open>An f-string field: a string as it is, \<^verbatim>\<open>None\<close> as the word, others formatted.\<close>

definition fmt :: "world \<Rightarrow> json \<Rightarrow> string" where
  "fmt w v = (case v of JStr s \<Rightarrow> s | JNull \<Rightarrow> ''None'' | _ \<Rightarrow> format_value w v)"

definition fmt_env :: "string option \<Rightarrow> string" where
  "fmt_env v = (case v of None \<Rightarrow> ''None'' | Some s \<Rightarrow> s)"

text \<open>\<^verbatim>\<open>base64.b64encode\<close> on the bytes of a string.\<close>

definition b64_alphabet :: string where
  "b64_alphabet = ''ABCDEFGHIJKLMNOPQRSTUVWXYZabcdefghijklmnopqrstuvwxyz0123456789+/''"

definition b64_char :: "nat \<Rightarrow> char" where
  "b64_char n = b64_alphabet ! (n mod 64)"

fun b64_bytes :: "nat list \<Rightarrow> string" where
  "b64_bytes [] = []"
| "b64_bytes [a] = [b64_char (a div 4), b64_char ((a mod 4) * 16), CHR ''='', CHR ''='']"
| "b64_bytes [a, b] =
     [b64_char (a div 4), b64_char ((a mod 4) * 16 + b div 16), b64_char ((b mod 16) * 4),
      CHR ''='']"
| "b64_bytes (a # b # c # rest) =
     [b64_char (a div 4), b64_char ((a mod 4) * 16 + b div 16),
      b64_char ((b mod 16) * 4 + c div 64), b64_char (c mod 64)] @ b64_bytes rest"

definition b64encode :: "string \<Rightarrow> string" where
  "b64encode s = b64_bytes (map of_char s)"

section \<open>The program\<close>

subsection \<open>\<^verbatim>\<open>gh_request\<close>\<close>

definition HEADERS :: "config \<Rightarrow> (string \<times> string) list" where
  "HEADERS cfg =
     [(''Authorization'', ''Bearer '' @ fmt_env (GITHUB_TOKEN cfg)),
      (''Accept'', ''application/vnd.github+json''),
      (''User-Agent'', ''tds-bot/'' @ fmt_env (GITHUB_USER cfg))]"

text \<open>
  One call to the platform. An exception of \<^verbatim>\<open>requests\<close> is not caught here, nor
  by any caller on the way up to the handler. The two \<^verbatim>\<open>print\<close>s are left out.
\<close>

definition gh_request :: "config \<Rightarrow> world \<Rightarrow> string \<Rightarrow> string \<Rightarrow> json option \<Rightarrow> response io" where
  "gh_request cfg w method url payload tr =
     (let tr' = tr @ [GhRequest method url (HEADERS cfg) payload] in
      case respond w tr' of
        Raises \<Rightarrow> (Inl RequestException, tr')
      | Responds r \<Rightarrow> (Inr r, tr'))"

subsection \<open>\<^verbatim>\<open>create_repo\<close>\<close>

text \<open>
  The loop over \<^verbatim>\<open>errors\<close>: \<^verbatim>\<open>e.get\<close> raises on an entry that is not a
  dictionary, \<^verbatim>\<open>.lower()\<close> on a message that is not a string.
\<close>

fun scan_errors :: "json list \<Rightarrow> exn + bool" where
  "scan_errors [] = Inr False"
| "scan_errors (e # es) =
     (case e of
        JObj kv \<Rightarrow>
          (case dict_get kv ''message'' (JStr []) of
             JStr m \<Rightarrow> if contains ''already exists'' (lower m) then Inr True else scan_errors es
           | _ \<Rightarrow> Inl AttributeError)
      | _ \<Rightarrow> Inl AttributeError)"

text \<open>
  The body of the \<^verbatim>\<open>try\<close>. Iterating a dictionary gives its keys and iterating a
  string its characters, all strings, on which \<^verbatim>\<open>e.get\<close> raises; a value
  that cannot be iterated raises at once.
\<close>

definition errors_say_exists :: "response \<Rightarrow> exn + bool" where
  "errors_say_exists r =
     (case json_body r of
        None \<Rightarrow> Inl JSONDecodeError
      | Some (JObj kv) \<Rightarrow>
          (case dict_get kv ''errors'' (JArr []) of
             JArr es \<Rightarrow> scan_errors es
           | JObj ks \<Rightarrow> if ks = [] then Inr False else Inl AttributeError
           | JStr s \<Rightarrow> if s = [] then Inr False else Inl AttributeError
           | _ \<Rightarrow> Inl TypeError)
      | Some _ \<Rightarrow> Inl AttributeError)"

definition create_payload :: "string \<Rightarrow> json" where
  "create_payload repo_name =
     JObj [(''name'', JStr repo_name), (''private'', JBool False), (''auto_init'', JBool True),
           (''license_template'', JStr ''mit'')]"

definition create_repo :: "config \<Rightarrow> world \<Rightarrow> string \<Rightarrow> bool io" where
  "create_repo cfg w repo_name =
     bind_io (gh_request cfg w ''POST'' ''https://api.github.com/user/repos''
                (Some (create_payload repo_name)))
       (\<lambda>r. return_io
          (if status_code r = 201 then True
           else if status_code r = 422 then
             (case errors_say_exists r of Inr True \<Rightarrow> True | _ \<Rightarrow> False)
           else False))"

subsection \<open>\<^verbatim>\<open>push_file\<close>\<close>

definition contents_url :: "config \<Rightarrow> string \<Rightarrow> string \<Rightarrow> string" where
  "contents_url cfg repo_name filename =
     ''https://api.github.com/repos/'' @ fmt_env (GITHUB_USER cfg) @ ''/'' @ repo_name @
     ''/contents/'' @ filename"

definition put_payload :: "string \<Rightarrow> string \<Rightarrow> (string \<times> json) list" where
  "put_payload filename content =
     [(''message'', JStr (''Add or update '' @ filename)), (''content'', JStr (b64encode content))]"

text \<open>
  \<^verbatim>\<open>data.get("commit", {}).get("sha") or data.get("content", {}).get("sha")\<close>:
  each \<^verbatim>\<open>get\<close> needs a dictionary, and the right operand is evaluated only when
  the left one is falsy.
\<close>

definition extract_sha :: "json \<Rightarrow> exn + json" where
  "extract_sha data =
     (case data of
        JObj kv \<Rightarrow>
          (case dict_get kv ''commit'' (JObj []) of
             JObj c \<Rightarrow>
               (let a = dict_get c ''sha'' JNull in
                if truthy a then Inr a
                else (case dict_get kv ''content'' (JObj []) of
                        JObj d \<Rightarrow> Inr (dict_get d ''sha'' JNull)
                      | _ \<Rightarrow> Inl AttributeError))
           | _ \<Rightarrow> Inl AttributeError)
      | _ \<Rightarrow> Inl AttributeError)"

definition response_sha :: "response \<Rightarrow> exn + json" where
  "response_sha r = (case json_body r of None \<Rightarrow> Inl JSONDecodeError | Some data \<Rightarrow> extract_sha data)"

text \<open>\<^verbatim>\<open>get_r.json().get("sha")\<close>\<close>

definition fetched_sha :: "response \<Rightarrow> exn + json" where
  "fetched_sha r =
     (case json_body r of
        None \<Rightarrow> Inl JSONDecodeError
      | Some (JObj kv) \<Rightarrow> Inr (dict_get kv ''sha'' JNull)
      | Some _ \<Rightarrow> Inl AttributeError)"

definition lift_io :: "exn + 'a \<Rightarrow> 'a io" where
  "lift_io v tr = (v, tr)"

text \<open>
  The result pair is (ok, sha). In the first branch every exception of the
  \<^verbatim>\<open>try\<close> gives \<^verbatim>\<open>(True, None)\<close>; in the 422 branch nothing is caught.
\<close>

definition push_file :: "config \<Rightarrow> world \<Rightarrow> string \<Rightarrow> string \<Rightarrow> string \<Rightarrow> (bool \<times> json) io" where
  "push_file cfg w repo_name filename content =
     (let url = contents_url cfg repo_name filename;
          payload = put_payload filename content in
      bind_io (gh_request cfg w ''PUT'' url (Some (JObj payload)))
        (\<lambda>r.
           if status_code r \<in> {200, 201} then
             (case response_sha r of
                Inr sha \<Rightarrow> return_io (True, sha)
              | Inl _ \<Rightarrow> return_io (True, JNull))
           else if status_code r = 422 then
             bind_io (gh_request cfg w ''GET'' url None)
               (\<lambda>get_r.
                  if status_code get_r = 200 then
                    bind_io (lift_io (fetched_sha get_r))
                      (\<lambda>sha.
                         if truthy sha then
                           bind_io (gh_request cfg w ''PUT'' url
                                      (Some (JObj (payload @ [(''sha'', sha)]))))
                             (\<lambda>r2.
                                if status_code r2 \<in> {200, 201} then
                                  bind_io (lift_io (response_sha r2))
                                    (\<lambda>sha2. return_io (True, sha2))
                                else return_io (False, JNull))
                         else return_io (False, JNull))
                  else return_io (False, JNull))
           else return_io (False, JNull)))"

subsection \<open>\<^verbatim>\<open>enable_pages\<close>\<close>

definition pages_payload :: json where
  "pages_payload =
     JObj [(''build_type'', JStr ''legacy''),
           (''source'', JObj [(''branch'', JStr ''main''), (''path'', JStr ''/'')])]"

definition enable_pages :: "config \<Rightarrow> world \<Rightarrow> string \<Rightarrow> bool io" where
  "enable_pages cfg w repo_name =
     bind_io (gh_request cfg w ''POST''
                (''https://api.github.com/repos/'' @ fmt_env (GITHUB_USER cfg) @ ''/'' @ repo_name @
                 ''/pages'')
                (Some pages_payload))
       (\<lambda>r. return_io (status_code r \<in> {201, 204}))"

subsection \<open>\<^verbatim>\<open>notify_evaluator\<close>\<close>

text \<open>
  The \<^verbatim>\<open>for\<close> loop over the delays, with the trace threaded through. Whatever the
  POST raises is caught, so the loop itself raises nothing.
\<close>

fun notify_loop :: "world \<Rightarrow> json \<Rightarrow> json \<Rightarrow> nat list \<Rightarrow> trace \<Rightarrow> bool \<times> trace" where
  "notify_loop w evaluation_url payload [] tr = (False, tr)"
| "notify_loop w evaluation_url payload (delay # ds) tr =
     (let tr' = tr @ [EvalPost evaluation_url payload] in
      case respond w tr' of
        Responds r \<Rightarrow>
          if 200 \<le> status_code r \<and> status_code r < 300 then (True, tr')
          else notify_loop w evaluation_url payload ds (tr' @ [Sleep delay])
      | Raises \<Rightarrow> notify_loop w evaluation_url payload ds (tr' @ [Sleep delay]))"

definition delays :: "nat list" where
  "delays = [2, 4, 8, 16]"

definition notify_evaluator :: "world \<Rightarrow> json \<Rightarrow> json \<Rightarrow> int \<Rightarrow> trace \<Rightarrow> bool \<times> trace" where
  "notify_evaluator w evaluation_url payload max_retries tr =
     notify_loop w evaluation_url payload delays tr"

subsection \<open>\<^verbatim>\<open>handle\<close>\<close>

definition error_response :: "string \<Rightarrow> json" where
  "error_response reason = JObj [(''status'', JStr ''error''), (''reason'', JStr reason)]"

definition success_response :: "string \<Rightarrow> string \<Rightarrow> json \<Rightarrow> json" where
  "success_response repo pages_url commit =
     JObj [(''status'', JStr ''success''), (''repo'', JStr repo), (''pages_url'', JStr pages_url),
           (''commit'', commit)]"

text \<open>The value of the module constant \<^verbatim>\<open>SECRET\<close>, as \<^verbatim>\<open>!=\<close> sees it.\<close>

definition secret_value :: "config \<Rightarrow> json" where
  "secret_value cfg = (case SECRET cfg of None \<Rightarrow> JNull | Some s \<Rightarrow> JStr s)"

definition repo_name_of :: "world \<Rightarrow> json \<Rightarrow> string" where
  "repo_name_of w task_id = ''tds_'' @ fmt w task_id @ ''_'' @ str_int (unix_time w mod 10000)"

definition html_content :: "string \<Rightarrow> string" where
  "html_content repo_name =
     ''\<newline>    <!DOCTYPE html>\<newline>    <html><head><meta charset='' @ [CHR 0x27] @ ''utf-8'' @
     [CHR 0x27] @ ''><title>'' @ repo_name @ ''</title></head>\<newline>    <body><h1>Hello from '' @
     repo_name @ ''</h1><p>Auto-deployed with FastAPI.</p></body></html>\<newline>    ''"

definition readme :: "world \<Rightarrow> string \<Rightarrow> json \<Rightarrow> string" where
  "readme w repo_name task_id =
     ''# '' @ repo_name @ ''\<newline>\<newline>Auto-created for task '' @ fmt w task_id @ ''.''"

definition mit_license :: "config \<Rightarrow> world \<Rightarrow> string" where
  "mit_license cfg w =
     ''MIT License\<newline>\<newline>Copyright (c) '' @ str_int (tm_year w) @ '' '' @
     fmt_env (GITHUB_USER cfg) @
     ''\<newline>\<newline>Permission is hereby granted, free of charge, to any person obtaining a copy\<newline>'' @
     ''of this software and associated documentation files (the '' @ [CHR 0x22] @ ''Software'' @
     [CHR 0x22] @ ''), to deal\<newline>'' @
     ''in the Software without restriction, including without limitation the rights\<newline>'' @
     ''to use, copy, modify, merge, publish, distribute, sublicense, and/or sell\<newline>'' @
     ''copies of the Software, and to permit persons to whom the Software is\<newline>'' @
     ''furnished to do so, subject to the following conditions:\<newline>''"

definition repo_url :: "config \<Rightarrow> string \<Rightarrow> string" where
  "repo_url cfg repo_name = ''https://github.com/'' @ fmt_env (GITHUB_USER cfg) @ ''/'' @ repo_name"

definition pages_url_of :: "config \<Rightarrow> string \<Rightarrow> string" where
  "pages_url_of cfg repo_name =
     ''https://'' @ fmt_env (GITHUB_USER cfg) @ ''.github.io/'' @ repo_name @ ''/''"

definition notification :: "config \<Rightarrow> (string \<times> json) list \<Rightarrow> json \<Rightarrow> string \<Rightarrow> json \<Rightarrow> json" where
  "notification cfg data task_id repo_name commit =
     JObj [(''email'', dict_get data ''email'' JNull), (''task'', task_id),
           (''repo'', JStr (repo_url cfg repo_name)),
           (''pages_url'', JStr (pages_url_of cfg repo_name)), (''commit'', commit)]"

text \<open>\<^verbatim>\<open>await req.json()\<close> and the first \<^verbatim>\<open>data.get\<close>, which needs a dictionary.\<close>

definition request_data :: "json option \<Rightarrow> exn + (string \<times> json) list" where
  "request_data body =
     (case body of
        None \<Rightarrow> Inl JSONDecodeError
      | Some (JObj kv) \<Rightarrow> Inr kv
      | Some _ \<Rightarrow> Inl AttributeError)"

text \<open>
  The handler. Its result is the response body, or the exception that leaves it (the
  framework then answers with a server error). The results of the LICENSE push, of
  \<^verbatim>\<open>enable_pages\<close> and of \<^verbatim>\<open>notify_evaluator\<close> are dropped, as in the source.
\<close>

definition handle :: "config \<Rightarrow> world \<Rightarrow> json option \<Rightarrow> json io" where
  "handle cfg w body =
     bind_io (lift_io (request_data body))
       (\<lambda>data.
          if dict_get data ''secret'' JNull \<noteq> secret_value cfg then
            return_io (error_response ''Invalid secret'')
          else
            (let task_id = dict_get data ''task'' (JStr ''demo_task'');
                 repo_name = repo_name_of w task_id in
             bind_io (create_repo cfg w repo_name)
               (\<lambda>created.
                  if \<not> created then return_io (error_response ''Failed to create repo'')
                  else
                    bind_io (push_file cfg w repo_name ''index.html'' (html_content repo_name))
                      (\<lambda>(ok, sha_html).
                         if \<not> ok then return_io (error_response ''Failed to push index.html'')
                         else
                           bind_io (push_file cfg w repo_name ''README.md''
                                      (readme w repo_name task_id))
                             (\<lambda>(ok, sha_readme).
                                if \<not> ok then
                                  return_io (error_response ''Failed to push README.md'')
                                else
                                  bind_io (push_file cfg w repo_name ''LICENSE'' (mit_license cfg w))
                                    (\<lambda>_.
                                       bind_io (enable_pages cfg w repo_name)
                                         (\<lambda>_.
                                            (let commit = py_or sha_html sha_readme;
                                                 payload = notification cfg data task_id repo_name commit;
                                                 evaluation_url = dict_get data ''evaluation_url'' JNull in
                                             bind_io
                                               (if truthy evaluation_url then
                                                  (\<lambda>tr. case notify_evaluator w evaluation_url payload 4 tr of
                                                           (b, tr') \<Rightarrow> (Inr b, tr'))
                                                else return_io False)
                                               (\<lambda>_. return_io
                                                      (success_response (repo_url cfg repo_name)
                                                         (pages_url_of cfg repo_name) commit))))))))))"

section \<open>Vocabulary of the properties\<close>

text \<open>
  A notification attempt, made at trace \<open>tr\<close> (which ends with the POST), fails when
  the POST raises or is answered with a status outside 200..299.
\<close>

definition attempt_fails :: "world \<Rightarrow> trace \<Rightarrow> bool" where
  "attempt_fails w tr =
     (case respond w tr of
        Raises \<Rightarrow> True
      | Responds r \<Rightarrow> \<not> (200 \<le> status_code r \<and> status_code r < 300))"

fun is_eval_post :: "event \<Rightarrow> bool" where
  "is_eval_post (EvalPost _ _) = True"
| "is_eval_post _ = False"

definition attempts :: "trace \<Rightarrow> nat" where
  "attempts tr = length (filter is_eval_post tr)"

text \<open>The calls that \<^verbatim>\<open>create_repo\<close> and \<^verbatim>\<open>push_file\<close> make, as events.\<close>

definition creation_call :: "config \<Rightarrow> string \<Rightarrow> event" where
  "creation_call cfg repo_name =
     GhRequest ''POST'' ''https://api.github.com/user/repos'' (HEADERS cfg)
       (Some (create_payload repo_name))"

definition put_call :: "config \<Rightarrow> string \<Rightarrow> string \<Rightarrow> string \<Rightarrow> (string \<times> json) list \<Rightarrow> event" where
  "put_call cfg repo_name filename content extra =
     GhRequest ''PUT'' (contents_url cfg repo_name filename) (HEADERS cfg)
       (Some (JObj (put_payload filename content @ extra)))"

definition get_call :: "config \<Rightarrow> string \<Rightarrow> string \<Rightarrow> event" where
  "get_call cfg repo_name filename =
     GhRequest ''GET'' (contents_url cfg repo_name filename) (HEADERS cfg) None"

definition pages_call :: "config \<Rightarrow> string \<Rightarrow> event" where
  "pages_call cfg repo_name =
     GhRequest ''POST''
       (''https://api.github.com/repos/'' @ fmt_env (GITHUB_USER cfg) @ ''/'' @ repo_name @
        ''/pages'')
       (HEADERS cfg) (Some pages_payload)"

text \<open>
  What a 422 answer says, in the words of the specification: its error list (an absent
  \<^verbatim>\<open>errors\<close> key is the empty list), the message of an entry, and whether some
  message contains \<^verbatim>\<open>already exists\<close> whatever the case of its letters.
\<close>

definition error_list :: "response \<Rightarrow> json list option" where
  "error_list r =
     (case json_body r of
        Some (JObj kv) \<Rightarrow>
          (case map_of kv ''errors'' of
             None \<Rightarrow> Some []
           | Some (JArr es) \<Rightarrow> Some es
           | _ \<Rightarrow> None)
      | _ \<Rightarrow> None)"

definition entry_message :: "json \<Rightarrow> string option" where
  "entry_message e =
     (case e of
        JObj kv \<Rightarrow> (case map_of kv ''message'' of Some (JStr m) \<Rightarrow> Some m | _ \<Rightarrow> None)
      | _ \<Rightarrow> None)"

definition says_exists :: "json \<Rightarrow> bool" where
  "says_exists e =
     (case entry_message e of
        Some m \<Rightarrow> contains ''already exists'' (lower m)
      | None \<Rightarrow> False)"

definition reports_existing :: "response \<Rightarrow> bool" where
  "reports_existing r =
     (case error_list r of Some es \<Rightarrow> list_ex says_exists es | None \<Rightarrow> False)"

text \<open>
  A structured error list: every entry is an object whose \<^verbatim>\<open>message\<close>, when it
  has one, is a string.
\<close>

definition structured_entry :: "json \<Rightarrow> bool" where
  "structured_entry e =
     (case e of
        JObj kv \<Rightarrow>
          (case map_of kv ''message'' of None \<Rightarrow> True | Some (JStr m) \<Rightarrow> True | _ \<Rightarrow> False)
      | _ \<Rightarrow> False)"

definition structured_errors :: "response \<Rightarrow> bool" where
  "structured_errors r =
     (case error_list r of Some es \<Rightarrow> list_all structured_entry es | None \<Rightarrow> True)"

text \<open>
  What the loop can see: a message containing \<^verbatim>\<open>already exists\<close> among the
  entries that come before the first entry that is not of this form.
\<close>

definition finds_existing :: "response \<Rightarrow> bool" where
  "finds_existing r =
     (case error_list r of
        Some es \<Rightarrow> list_ex says_exists (takeWhile structured_entry es)
      | None \<Rightarrow> False)"

text \<open>
  Relations between computations, used to compare two runs of the handler and to
  follow its trace. A trace is a platform trace when all its events are calls
  through \<^verbatim>\<open>gh_request\<close>.
\<close>

fun is_platform_call :: "event \<Rightarrow> bool" where
  "is_platform_call (GhRequest _ _ _ _) = True"
| "is_platform_call _ = False"

definition io_agree :: "'a io \<Rightarrow> 'a io \<Rightarrow> bool" where
  "io_agree m m' =
     (\<forall>tr. list_all is_platform_call tr \<longrightarrow>
        m' tr = m tr \<and> list_all is_platform_call (snd (m tr)))"

definition io_same_result :: "'a io \<Rightarrow> 'a io \<Rightarrow> bool" where
  "io_same_result m m' = (\<forall>tr. list_all is_platform_call tr \<longrightarrow> fst (m' tr) = fst (m tr))"

definition io_extends :: "'a io \<Rightarrow> bool" where
  "io_extends m = (\<forall>tr. prefix tr (snd (m tr)))"

definition io_avoids :: "'a \<Rightarrow> 'a io \<Rightarrow> bool" where
  "io_avoids v m = (\<forall>tr. fst (m tr) \<noteq> Inr v)"

section \<open>Sample surroundings\<close>

definition answer :: "int \<Rightarrow> json option \<Rightarrow> outcome" where
  "answer code body = Responds \<lparr>status_code = code, json_body = body\<rparr>"

definition world_of :: "(trace \<Rightarrow> outcome) \<Rightarrow> world" where
  "world_of f = \<lparr>respond = f, unix_time = 1700001234, tm_year = 2025, format_value = (\<lambda>_. [])\<rparr>"

text \<open>Only the call that makes the trace \<open>n\<close> events long is answered with 200.\<close>

definition succeeds_at :: "nat \<Rightarrow> trace \<Rightarrow> outcome" where
  "succeeds_at n tr = (if length tr = n then answer 200 None else answer 503 None)"

text \<open>The \<open>n\<close>-th call of a run gets the \<open>n\<close>-th answer of the list; later calls raise.\<close>

definition script :: "outcome list \<Rightarrow> trace \<Rightarrow> outcome" where
  "script answers tr =
     (if 0 < length tr \<and> length tr \<le> length answers then answers ! (length tr - 1) else Raises)"

definition sample_config :: config where
  "sample_config =
     \<lparr>GITHUB_TOKEN = Some ''t0ken'', GITHUB_USER = Some ''alice'', SECRET = Some ''s1''\<rparr>"

text \<open>The platform's answer to the creation of a repository that exists.\<close>

definition exists_422 :: response where
  "exists_422 =
     \<lparr>status_code = 422,
      json_body = Some (JObj
        [(''message'', JStr ''Repository creation failed.''),
         (''errors'', JArr
            [JObj [(''resource'', JStr ''Repository''), (''code'', JStr ''custom''),
                   (''field'', JStr ''name''),
                   (''message'', JStr ''name already exists on this account'')]])])\<rparr>"

text \<open>The same with an entry before it whose message is \<^verbatim>\<open>null\<close>.\<close>

definition null_message_422 :: response where
  "null_message_422 =
     \<lparr>status_code = 422,
      json_body = Some (JObj
        [(''errors'', JArr
            [JObj [(''message'', JNull)],
             JObj [(''message'', JStr ''name already exists on this account'')]])])\<rparr>"

text \<open>A matching message first, then an entry that is a number.\<close>

definition trailing_number_422 :: response where
  "trailing_number_422 =
     \<lparr>status_code = 422,
      json_body = Some (JObj
        [(''errors'', JArr
            [JObj [(''message'', JStr ''name already exists on this account'')], JInt 5])])\<rparr>"

text \<open>An entry without message, then a matching message in mixed case.\<close>

definition mixed_case_422 :: response where
  "mixed_case_422 =
     \<lparr>status_code = 422,
      json_body = Some (JObj
        [(''errors'', JArr
            [JObj [(''code'', JStr ''custom'')],
             JObj [(''message'', JStr ''Name Already EXISTS on this account'')]])])\<rparr>"

text \<open>Every call is answered with 201 and a commit sha.\<close>

definition all_created :: "trace \<Rightarrow> outcome" where
  "all_created tr = answer 201 (Some (JObj [(''commit'', JObj [(''sha'', JStr ''abc123'')])]))"

text \<open>The same, but once the evaluator has been called every call raises.\<close>

definition deaf_evaluator :: "trace \<Rightarrow> outcome" where
  "deaf_evaluator tr =
     (if list_ex is_eval_post tr then Raises
      else answer 201 (Some (JObj [(''commit'', JObj [(''sha'', JStr ''abc123'')])])))"

text \<open>Every call is answered with 201 and a body that is not JSON.\<close>

definition unparseable :: "trace \<Rightarrow> outcome" where
  "unparseable tr = answer 201 None"

text \<open>
  Creation and the two required pushes succeed; the LICENSE push and the hosting call
  are answered with 500.
\<close>

definition optional_steps_fail :: "trace \<Rightarrow> outcome" where
  "optional_steps_fail =
     script [answer 201 None,
             answer 201 (Some (JObj [(''commit'', JObj [(''sha'', JStr ''abc123'')])])),
             answer 200 (Some (JObj [(''content'', JObj [(''sha'', JStr ''def456'')])])),
             answer 500 None,
             answer 500 None]"

text \<open>The push of the page gives no sha, the push of the README gives one.\<close>

definition html_sha_missing :: "trace \<Rightarrow> outcome" where
  "html_sha_missing =
     script [answer 201 None,
             answer 201 None,
             answer 200 (Some (JObj [(''content'', JObj [(''sha'', JStr ''def456'')])])),
             answer 201 None,
             answer 204 None]"

text \<open>
  Creation and the two required pushes succeed; then the LICENSE call raises (first
  script), or is answered with 201 and the hosting call raises (second script).
\<close>

definition license_call_raises :: "trace \<Rightarrow> outcome" where
  "license_call_raises =
     script [answer 201 None,
             answer 201 (Some (JObj [(''commit'', JObj [(''sha'', JStr ''abc123'')])])),
             answer 200 (Some (JObj [(''content'', JObj [(''sha'', JStr ''def456'')])]))]"

definition hosting_call_raises :: "trace \<Rightarrow> outcome" where
  "hosting_call_raises =
     script [answer 201 None,
             answer 201 (Some (JObj [(''commit'', JObj [(''sha'', JStr ''abc123'')])])),
             answer 200 (Some (JObj [(''content'', JObj [(''sha'', JStr ''def456'')])])),
             answer 201 None]"

definition unset_secret_config :: config where
  "unset_secret_config =
     \<lparr>GITHUB_TOKEN = Some ''t0ken'', GITHUB_USER = Some ''alice'', SECRET = None\<rparr>"

definition demo_body :: "json option" where
  "demo_body = Some (JObj [(''secret'', JStr ''s1''), (''task'', JStr ''demo'')])"

definition sample_body :: "json option" where
  "sample_body =
     Some (JObj [(''secret'', JStr ''s1''), (''task'', JStr ''demo''), (''email'', JStr ''a@b.c''),
                 (''evaluation_url'', JStr ''http://e'')])"

section \<open>The evaluator notifier\<close>

text \<open>
  C2. With \<open>p\<close> the POST to the evaluator and \<open>t1\<close>, \<open>t2\<close>, \<open>t3\<close>, \<open>t4\<close> the traces
  at which the first to fourth attempts are made, \<^verbatim>\<open>notify_evaluator\<close> returns true
  at the first attempt that does not fail, with nothing after that POST in the trace;
  when all four fail it returns false after exactly four POSTs, each followed by its
  sleep of 2, 4, 8 and 16 seconds, the last one included.
\<close>

theorem notify_schedule:
  fixes w url payload tr
  defines "p \<equiv> EvalPost url payload"
  defines "t1 \<equiv> tr @ [p]"
  defines "t2 \<equiv> t1 @ [Sleep 2, p]"
  defines "t3 \<equiv> t2 @ [Sleep 4, p]"
  defines "t4 \<equiv> t3 @ [Sleep 8, p]"
  shows
    "(\<not> attempt_fails w t1 \<longrightarrow> notify_evaluator w url payload m tr = (True, t1)) \<and>
     (attempt_fails w t1 \<and> \<not> attempt_fails w t2 \<longrightarrow>
        notify_evaluator w url payload m tr = (True, t2)) \<and>
     (attempt_fails w t1 \<and> attempt_fails w t2 \<and> \<not> attempt_fails w t3 \<longrightarrow>
        notify_evaluator w url payload m tr = (True, t3)) \<and>
     (attempt_fails w t1 \<and> attempt_fails w t2 \<and> attempt_fails w t3 \<and> \<not> attempt_fails w t4 \<longrightarrow>
        notify_evaluator w url payload m tr = (True, t4)) \<and>
     (attempt_fails w t1 \<and> attempt_fails w t2 \<and> attempt_fails w t3 \<and> attempt_fails w t4 \<longrightarrow>
        notify_evaluator w url payload m tr = (False, t4 @ [Sleep 16]))"
  unfolding p_def t1_def t2_def t3_def t4_def
  by (auto simp: notify_evaluator_def delays_def attempt_fails_def Let_def split: outcome.splits)

theorem notify_schedule_witness:
  "notify_evaluator (world_of (\<lambda>_. Raises)) (JStr ''http://e'') JNull 4 [] =
     (False, [EvalPost (JStr ''http://e'') JNull, Sleep 2, EvalPost (JStr ''http://e'') JNull, Sleep 4,
              EvalPost (JStr ''http://e'') JNull, Sleep 8, EvalPost (JStr ''http://e'') JNull, Sleep 16]) \<and>
   notify_evaluator (world_of (succeeds_at 1)) (JStr ''http://e'') JNull 4 [] =
     (True, [EvalPost (JStr ''http://e'') JNull]) \<and>
   notify_evaluator (world_of (succeeds_at 3)) (JStr ''http://e'') JNull 4 [] =
     (True, [EvalPost (JStr ''http://e'') JNull, Sleep 2, EvalPost (JStr ''http://e'') JNull]) \<and>
   notify_evaluator (world_of (succeeds_at 5)) (JStr ''http://e'') JNull 4 [] =
     (True, [EvalPost (JStr ''http://e'') JNull, Sleep 2, EvalPost (JStr ''http://e'') JNull, Sleep 4,
             EvalPost (JStr ''http://e'') JNull]) \<and>
   notify_evaluator (world_of (succeeds_at 7)) (JStr ''http://e'') JNull 4 [] =
     (True, [EvalPost (JStr ''http://e'') JNull, Sleep 2, EvalPost (JStr ''http://e'') JNull, Sleep 4,
             EvalPost (JStr ''http://e'') JNull, Sleep 8, EvalPost (JStr ''http://e'') JNull])"
  using notify_schedule [of "world_of (\<lambda>_. Raises)" "[]" "JStr ''http://e''" JNull 4]
    notify_schedule [of "world_of (succeeds_at 1)" "[]" "JStr ''http://e''" JNull 4]
    notify_schedule [of "world_of (succeeds_at 3)" "[]" "JStr ''http://e''" JNull 4]
    notify_schedule [of "world_of (succeeds_at 5)" "[]" "JStr ''http://e''" JNull 4]
    notify_schedule [of "world_of (succeeds_at 7)" "[]" "JStr ''http://e''" JNull 4]
  by (simp add: attempt_fails_def world_of_def succeeds_at_def answer_def)

text \<open>
  C9, as the code has it. \<^verbatim>\<open>max_retries\<close> is never read: two calls that differ
  only in it give the same result and the same trace. The number of POSTs is at most
  the length of the delay list, which is 4. It is exactly 4 when, and only when, the
  first three attempts fail; in particular whenever the result is false.
\<close>

theorem notify_ignores_max_retries:
  fixes w url payload tr m1
  defines "p \<equiv> EvalPost url payload"
  defines "t1 \<equiv> tr @ [p]"
  defines "t2 \<equiv> t1 @ [Sleep 2, p]"
  defines "t3 \<equiv> t2 @ [Sleep 4, p]"
  defines "run \<equiv> notify_evaluator w url payload m1 tr"
  shows
    "run = notify_evaluator w url payload m2 tr \<and>
     length delays = 4 \<and>
     attempts (snd run) \<le> attempts tr + length delays \<and>
     (attempts (snd run) = attempts tr + length delays \<longleftrightarrow>
        attempt_fails w t1 \<and> attempt_fails w t2 \<and> attempt_fails w t3) \<and>
     (\<not> fst run \<longrightarrow> attempts (snd run) = attempts tr + length delays)"
  unfolding p_def t1_def t2_def t3_def run_def
  by (auto simp: notify_evaluator_def delays_def attempt_fails_def attempts_def Let_def
      split: outcome.splits)

theorem notify_ignores_max_retries_witness:
  "notify_evaluator (world_of (\<lambda>_. Raises)) (JStr ''http://e'') JNull 0 [] =
     notify_evaluator (world_of (\<lambda>_. Raises)) (JStr ''http://e'') JNull 9 [] \<and>
   attempts (snd (notify_evaluator (world_of (\<lambda>_. Raises)) (JStr ''http://e'') JNull 0 [])) = 4 \<and>
   attempts (snd (notify_evaluator (world_of (succeeds_at 7)) (JStr ''http://e'') JNull 1 [])) = 4 \<and>
   attempts (snd (notify_evaluator (world_of (succeeds_at 3)) (JStr ''http://e'') JNull 1 [])) \<noteq> 4"
proof -
  note all_fail =
    notify_ignores_max_retries [of "world_of (\<lambda>_. Raises)" "JStr ''http://e''" JNull 0 "[]" 9]
  note fourth =
    notify_ignores_max_retries [of "world_of (succeeds_at 7)" "JStr ''http://e''" JNull 1 "[]" 1]
  note second =
    notify_ignores_max_retries [of "world_of (succeeds_at 3)" "JStr ''http://e''" JNull 1 "[]" 1]
  have 1: "notify_evaluator (world_of (\<lambda>_. Raises)) (JStr ''http://e'') JNull 0 [] =
           notify_evaluator (world_of (\<lambda>_. Raises)) (JStr ''http://e'') JNull 9 []"
    using all_fail by (rule conjunct1)
  have 2: "attempts (snd (notify_evaluator (world_of (\<lambda>_. Raises)) (JStr ''http://e'') JNull 0 []))
             = 4"
    using all_fail [THEN conjunct2]
    by (simp add: attempt_fails_def world_of_def delays_def attempts_def [of "[]"])
  have 3: "attempts (snd (notify_evaluator (world_of (succeeds_at 7)) (JStr ''http://e'') JNull 1 []))
             = 4"
    using fourth [THEN conjunct2]
    by (simp add: attempt_fails_def world_of_def succeeds_at_def answer_def delays_def
        attempts_def [of "[]"])
  have 4: "attempts (snd (notify_evaluator (world_of (succeeds_at 3)) (JStr ''http://e'') JNull 1 []))
             \<noteq> 4"
    using second [THEN conjunct2]
    by (simp add: attempt_fails_def world_of_def succeeds_at_def answer_def delays_def
        attempts_def [of "[]"])
  from 1 2 3 4 show ?thesis by simp
qed

text \<open>
  The first POST is answered with 200: one attempt is made, not four, whatever
  \<^verbatim>\<open>max_retries\<close> is.
\<close>

theorem early_success_makes_one_attempt:
  "notify_evaluator (world_of (succeeds_at 1)) (JStr ''http://e'') JNull 4 [] =
     (True, [EvalPost (JStr ''http://e'') JNull]) \<and>
   attempts (snd (notify_evaluator (world_of (succeeds_at 1)) (JStr ''http://e'') JNull 4 [])) = 1 \<and>
   attempts (snd (notify_evaluator (world_of (succeeds_at 1)) (JStr ''http://e'') JNull 9 [])) = 1"
  by (simp add: notify_evaluator_def delays_def world_of_def succeeds_at_def answer_def
      attempts_def)

section \<open>Repository creation\<close>

lemma contains_sublist: "contains needle hay = sublist needle hay"
  by (induction hay) (auto simp: sublist_Cons_right)

lemma scan_errors_unreadable:
  "\<not> structured_entry e \<Longrightarrow> scan_errors (e # es) = Inl AttributeError"
  by (auto simp: structured_entry_def dict_get_def split: json.splits option.splits)

lemma scan_errors_readable:
  "structured_entry e \<Longrightarrow>
   scan_errors (e # es) = (if says_exists e then Inr True else scan_errors es)"
  by (auto simp: structured_entry_def says_exists_def entry_message_def dict_get_def lower_def
      split: json.splits option.splits)

lemma scan_errors_iff:
  "scan_errors es = Inr True \<longleftrightarrow> list_ex says_exists (takeWhile structured_entry es)"
proof (induction es)
  case Nil
  show ?case by simp
next
  case (Cons e es)
  show ?case
  proof (cases "structured_entry e")
    case True
    then show ?thesis
      using Cons.IH by (simp add: scan_errors_readable del: scan_errors.simps)
  next
    case False
    then show ?thesis
      by (simp add: scan_errors_unreadable del: scan_errors.simps)
  qed
qed

lemma errors_say_exists_iff: "errors_say_exists r = Inr True \<longleftrightarrow> finds_existing r"
  by (auto simp: errors_say_exists_def finds_existing_def error_list_def dict_get_def
      scan_errors_iff split: json.splits option.splits if_splits)

lemma finds_existing_reports: "finds_existing r \<Longrightarrow> reports_existing r"
  by (auto simp: finds_existing_def reports_existing_def list_ex_iff
      dest: set_takeWhileD split: option.splits)

lemma finds_existing_structured:
  "structured_errors r \<Longrightarrow> finds_existing r = reports_existing r"
  by (auto simp: finds_existing_def reports_existing_def structured_errors_def list_all_iff
      takeWhile_eq_all_conv [THEN iffD2] split: option.splits)

lemma says_exists_structured: "says_exists e \<Longrightarrow> structured_entry e"
  by (auto simp: says_exists_def entry_message_def structured_entry_def
      split: json.splits option.splits)

lemma list_ex_takeWhile:
  assumes "\<And>x. P x \<Longrightarrow> Q x"
  shows "list_ex P (takeWhile Q es) \<longleftrightarrow>
           (\<exists>i<length es. P (es ! i) \<and> (\<forall>j<i. Q (es ! j)))"
proof (induction es)
  case Nil
  show ?case by simp
next
  case (Cons e es)
  show ?case
  proof (cases "Q e")
    case False
    then have "\<not> P e"
      using assms by blast
    with False show ?thesis
      by (auto simp: nth_Cons split: nat.splits)
  next
    case True
    show ?thesis
    proof
      assume "list_ex P (takeWhile Q (e # es))"
      then consider "P e" | "list_ex P (takeWhile Q es)"
        using True by auto
      then show "\<exists>i<length (e # es). P ((e # es) ! i) \<and> (\<forall>j<i. Q ((e # es) ! j))"
      proof cases
        case 1
        then show ?thesis
          by (intro exI [of _ 0]) simp
      next
        case 2
        then obtain i where i: "i < length es" "P (es ! i)" "\<forall>j<i. Q (es ! j)"
          using Cons.IH by blast
        show ?thesis
          using i True by (intro exI [of _ "Suc i"]) (auto simp: nth_Cons split: nat.splits)
      qed
    next
      assume "\<exists>i<length (e # es). P ((e # es) ! i) \<and> (\<forall>j<i. Q ((e # es) ! j))"
      then obtain i where i: "i < length (e # es)" "P ((e # es) ! i)" "\<forall>j<i. Q ((e # es) ! j)"
        by blast
      show "list_ex P (takeWhile Q (e # es))"
      proof (cases i)
        case 0
        then show ?thesis
          using i True by simp
      next
        case (Suc k)
        have "k < length es" "P (es ! k)"
          using i Suc by simp_all
        moreover have "\<forall>j<k. Q (es ! j)"
        proof (intro allI impI)
          fix j
          assume "j < k"
          then have "Suc j < i"
            using Suc by simp
          then have "Q ((e # es) ! Suc j)"
            using i(3) by blast
          then show "Q (es ! j)"
            by simp
        qed
        ultimately have "list_ex P (takeWhile Q es)"
          using Cons.IH by blast
        then show ?thesis
          using True by simp
      qed
    qed
  qed
qed

lemma finds_existing_index:
  "finds_existing r \<longleftrightarrow>
     (\<exists>es i. error_list r = Some es \<and> i < length es \<and> says_exists (es ! i) \<and>
        (\<forall>j<i. structured_entry (es ! j)))"
  using list_ex_takeWhile [of says_exists structured_entry, OF says_exists_structured]
  by (auto simp: finds_existing_def split: option.splits)

lemma exists_422_facts:
  "finds_existing exists_422" "status_code exists_422 = 422"
  "finds_existing mixed_case_422" "status_code mixed_case_422 = 422"
  by code_simp+

text \<open>
  C4, as the code has it. \<^verbatim>\<open>create_repo\<close> makes one call. When the call raises,
  so does \<^verbatim>\<open>create_repo\<close>. When it is answered, \<^verbatim>\<open>create_repo\<close> returns true
  exactly on a 201, or on a 422 with an error list in which some entry has a message
  containing \<^verbatim>\<open>already exists\<close> (letters of either case) and every entry before
  it is an object whose message, if it has one, is a string. It returns false in every
  other case: another status, a 422 without such a message, a 422 whose body is not
  JSON or has no error list. On a list whose entries are all of that form the
  condition is that some message of the list contains \<^verbatim>\<open>already exists\<close>.
\<close>

theorem create_repo_success_iff:
  "(respond w (tr @ [creation_call cfg name]) = Raises \<longrightarrow>
      create_repo cfg w name tr = (Inl RequestException, tr @ [creation_call cfg name])) \<and>
   (respond w (tr @ [creation_call cfg name]) = Responds r \<longrightarrow>
      create_repo cfg w name tr =
        (Inr (status_code r = 201 \<or> status_code r = 422 \<and> finds_existing r),
         tr @ [creation_call cfg name])) \<and>
   (finds_existing r \<longleftrightarrow>
      (\<exists>es i. error_list r = Some es \<and> i < length es \<and> says_exists (es ! i) \<and>
         (\<forall>j<i. structured_entry (es ! j)))) \<and>
   (finds_existing r \<longrightarrow> reports_existing r) \<and>
   (structured_errors r \<longrightarrow> finds_existing r = reports_existing r)"
proof -
  have raised: "respond w (tr @ [creation_call cfg name]) = Raises \<longrightarrow>
      create_repo cfg w name tr = (Inl RequestException, tr @ [creation_call cfg name])"
    by (simp add: create_repo_def bind_io_def gh_request_def creation_call_def)
  have run: "respond w (tr @ [creation_call cfg name]) = Responds r \<longrightarrow>
      create_repo cfg w name tr =
        (Inr (status_code r = 201 \<or> status_code r = 422 \<and> finds_existing r),
         tr @ [creation_call cfg name])"
    by (auto simp: create_repo_def bind_io_def gh_request_def return_io_def creation_call_def
        errors_say_exists_iff [symmetric] split: sum.splits bool.splits)
  show ?thesis
    using raised run finds_existing_reports [of r] finds_existing_structured [of r]
      finds_existing_index [of r]
    by blast
qed

theorem create_repo_success_iff_witness:
  "create_repo sample_config (world_of (\<lambda>_. Responds exists_422)) ''tds_demo_1234'' [] =
     (Inr True, [creation_call sample_config ''tds_demo_1234'']) \<and>
   create_repo sample_config (world_of (\<lambda>_. Responds mixed_case_422)) ''tds_demo_1234'' [] =
     (Inr True, [creation_call sample_config ''tds_demo_1234'']) \<and>
   create_repo sample_config (world_of (\<lambda>_. answer 422 None)) ''tds_demo_1234'' [] =
     (Inr False, [creation_call sample_config ''tds_demo_1234'']) \<and>
   create_repo sample_config (world_of (\<lambda>_. answer 201 None)) ''tds_demo_1234'' [] =
     (Inr True, [creation_call sample_config ''tds_demo_1234'']) \<and>
   create_repo sample_config (world_of (\<lambda>_. Raises)) ''tds_demo_1234'' [] =
     (Inl RequestException, [creation_call sample_config ''tds_demo_1234''])"
proof -
  have 1: "create_repo sample_config (world_of (\<lambda>_. Responds exists_422)) ''tds_demo_1234'' [] =
     (Inr True, [creation_call sample_config ''tds_demo_1234''])"
    using create_repo_success_iff [of "world_of (\<lambda>_. Responds exists_422)" "[]" sample_config
        "''tds_demo_1234''" exists_422, THEN conjunct2, THEN conjunct1] exists_422_facts
    by (simp add: world_of_def)
  have 2: "create_repo sample_config (world_of (\<lambda>_. Responds mixed_case_422)) ''tds_demo_1234'' [] =
     (Inr True, [creation_call sample_config ''tds_demo_1234''])"
    using create_repo_success_iff [of "world_of (\<lambda>_. Responds mixed_case_422)" "[]"
        sample_config "''tds_demo_1234''" mixed_case_422, THEN conjunct2, THEN conjunct1]
      exists_422_facts
    by (simp add: world_of_def)
  have 3: "create_repo sample_config (world_of (\<lambda>_. answer 422 None)) ''tds_demo_1234'' [] =
     (Inr False, [creation_call sample_config ''tds_demo_1234''])"
    using create_repo_success_iff [of "world_of (\<lambda>_. answer 422 None)" "[]" sample_config
        "''tds_demo_1234''" "\<lparr>status_code = 422, json_body = None\<rparr>",
        THEN conjunct2, THEN conjunct1]
    by (simp add: world_of_def answer_def finds_existing_def error_list_def)
  have 4: "create_repo sample_config (world_of (\<lambda>_. answer 201 None)) ''tds_demo_1234'' [] =
     (Inr True, [creation_call sample_config ''tds_demo_1234''])"
    using create_repo_success_iff [of "world_of (\<lambda>_. answer 201 None)" "[]" sample_config
        "''tds_demo_1234''" "\<lparr>status_code = 201, json_body = None\<rparr>",
        THEN conjunct2, THEN conjunct1]
    by (simp add: world_of_def answer_def)
  have 5: "create_repo sample_config (world_of (\<lambda>_. Raises)) ''tds_demo_1234'' [] =
     (Inl RequestException, [creation_call sample_config ''tds_demo_1234''])"
    using create_repo_success_iff [of "world_of (\<lambda>_. Raises)" "[]" sample_config
        "''tds_demo_1234''", THEN conjunct1]
    by (simp add: world_of_def)
  from 1 2 3 4 5 show ?thesis by simp
qed

text \<open>
  Two answers with status 422. In the first, the list has a message containing
  \<^verbatim>\<open>already exists\<close> after an entry whose message is \<^verbatim>\<open>null\<close>: the loop ends
  at that entry and \<^verbatim>\<open>create_repo\<close> returns false. In the second, the list is
  not structured (its last entry is a number), but the matching message comes first
  and \<^verbatim>\<open>create_repo\<close> returns true.
\<close>

theorem create_repo_not_by_messages_alone:
  "status_code null_message_422 = 422 \<and> reports_existing null_message_422 \<and>
   create_repo sample_config (world_of (\<lambda>_. Responds null_message_422)) ''tds_demo_1234'' [] =
     (Inr False, [creation_call sample_config ''tds_demo_1234'']) \<and>
   status_code trailing_number_422 = 422 \<and> \<not> structured_errors trailing_number_422 \<and>
   create_repo sample_config (world_of (\<lambda>_. Responds trailing_number_422)) ''tds_demo_1234'' [] =
     (Inr True, [creation_call sample_config ''tds_demo_1234''])"
  by code_simp

section \<open>File upsert\<close>

text \<open>
  C3, as the code has it. Let the first PUT be answered with 422. The trace is then the
  PUT and one GET, followed by at most one more PUT, which carries the fetched sha.
  The second PUT is made when the GET is answered with 200 and a JSON object whose
  \<^verbatim>\<open>sha\<close> is truthy; if it is then answered with a status other than 200 and 201,
  the result is failure and nothing follows. When the GET is answered with another
  status, or with an object whose \<^verbatim>\<open>sha\<close> is absent or falsy, there is no second
  PUT and the result is failure.
\<close>

theorem push_file_422:
  fixes cfg w repo_name filename content tr
  defines "put \<equiv> put_call cfg repo_name filename content"
  defines "get \<equiv> get_call cfg repo_name filename"
  defines "run \<equiv> push_file cfg w repo_name filename content tr"
  assumes first: "respond w (tr @ [put []]) = Responds r" "status_code r = 422"
  shows
    "(snd run = tr @ [put [], get] \<or>
      (\<exists>g sha. respond w (tr @ [put [], get]) = Responds g \<and> status_code g = 200 \<and>
         fetched_sha g = Inr sha \<and> truthy sha \<and>
         snd run = tr @ [put [], get, put [(''sha'', sha)]])) \<and>
     (respond w (tr @ [put [], get]) = Responds g \<and> status_code g = 200 \<and>
      fetched_sha g = Inr sha \<and> truthy sha \<longrightarrow>
        snd run = tr @ [put [], get, put [(''sha'', sha)]] \<and>
        (respond w (tr @ [put [], get, put [(''sha'', sha)]]) = Responds r2 \<and>
         status_code r2 \<notin> {200, 201} \<longrightarrow> fst run = Inr (False, JNull))) \<and>
     (respond w (tr @ [put [], get]) = Responds g \<and>
      (status_code g \<noteq> 200 \<or> fetched_sha g = Inr sha \<and> \<not> truthy sha) \<longrightarrow>
        run = (Inr (False, JNull), tr @ [put [], get]))"
  using first unfolding put_def get_def run_def
  by (auto simp: push_file_def Let_def bind_io_def gh_request_def return_io_def lift_io_def
      put_call_def get_call_def split: outcome.splits sum.splits)

theorem push_file_422_witness:
  "push_file sample_config
     (world_of (script [answer 422 None, answer 200 (Some (JObj [(''sha'', JStr ''abc'')])),
                        answer 409 None]))
     ''tds_demo_1234'' ''index.html'' ''<h1>Hello World</h1>'' [] =
   (Inr (False, JNull),
    [put_call sample_config ''tds_demo_1234'' ''index.html'' ''<h1>Hello World</h1>'' [],
     get_call sample_config ''tds_demo_1234'' ''index.html'',
     put_call sample_config ''tds_demo_1234'' ''index.html'' ''<h1>Hello World</h1>''
       [(''sha'', JStr ''abc'')]])"
  using push_file_422 [of
      "world_of (script [answer 422 None, answer 200 (Some (JObj [(''sha'', JStr ''abc'')])),
                        answer 409 None])"
      "[]" sample_config "''tds_demo_1234''" "''index.html''" "''<h1>Hello World</h1>''"
      "\<lparr>status_code = 422, json_body = None\<rparr>"
      "\<lparr>status_code = 200, json_body = Some (JObj [(''sha'', JStr ''abc'')])\<rparr>"
      "JStr ''abc''" "\<lparr>status_code = 409, json_body = None\<rparr>"]
  by (simp add: world_of_def script_def answer_def fetched_sha_def dict_get_def prod_eq_iff)

text \<open>
  The first PUT is answered with 422 and the GET with 404: the run ends after the GET,
  with no second PUT.
\<close>

theorem push_file_422_without_retry:
  "respond (world_of (script [answer 422 None, answer 404 None]))
     [put_call sample_config ''tds_demo_1234'' ''index.html'' ''<h1>Hello World</h1>'' []] =
     answer 422 None \<and>
   push_file sample_config (world_of (script [answer 422 None, answer 404 None]))
     ''tds_demo_1234'' ''index.html'' ''<h1>Hello World</h1>'' [] =
   (Inr (False, JNull),
    [put_call sample_config ''tds_demo_1234'' ''index.html'' ''<h1>Hello World</h1>'' [],
     get_call sample_config ''tds_demo_1234'' ''index.html''])"
  by (simp add: push_file_def Let_def bind_io_def gh_request_def return_io_def lift_io_def
      put_call_def get_call_def world_of_def script_def answer_def)

section \<open>Runs of the handler\<close>

lemma sample_suffix: "str_int 1234 = ''1234''"
  by code_simp

lemmas step_defs = bind_io_def lift_io_def request_data_def return_io_def Let_def
  sample_config_def world_of_def answer_def dict_get_def secret_value_def
  create_repo_def push_file_def enable_pages_def gh_request_def response_sha_def extract_sha_def
  repo_name_of_def fmt_def sample_suffix py_or_def repo_url_def pages_url_of_def fmt_env_def
  notify_evaluator_def delays_def

lemmas sample_defs = sample_body_def demo_body_def all_created_def html_sha_missing_def
  optional_steps_fail_def unparseable_def license_call_raises_def hosting_call_raises_def
  script_def

lemma bind_lift_Inr: "bind_io (lift_io (Inr x)) f = f x"
  by (simp add: bind_io_def lift_io_def fun_eq_iff)

text \<open>
  The run that ends in success: the secret matches, the repository is created, the two
  required pushes succeed, and the LICENSE push and the hosting call return, with
  whatever result. An exception in one of the last two leaves the handler instead.
\<close>

lemma handle_success:
  fixes cfg w body tr data
  defines "task_id \<equiv> dict_get data ''task'' (JStr ''demo_task'')"
  defines "name \<equiv> repo_name_of w task_id"
  defines "s1 \<equiv> create_repo cfg w name tr"
  defines "s2 \<equiv> push_file cfg w name ''index.html'' (html_content name) (snd s1)"
  defines "s3 \<equiv> push_file cfg w name ''README.md'' (readme w name task_id) (snd s2)"
  defines "s4 \<equiv> push_file cfg w name ''LICENSE'' (mit_license cfg w) (snd s3)"
  defines "s5 \<equiv> enable_pages cfg w name (snd s4)"
  assumes "body = Some (JObj data)"
    and "dict_get data ''secret'' JNull = secret_value cfg"
    and "fst s1 = Inr True"
    and "fst s2 = Inr (True, sha_html)"
    and "fst s3 = Inr (True, sha_readme)"
    and "fst s4 = Inr lic"
    and "fst s5 = Inr pages_ok"
  shows "fst (handle cfg w body tr) =
           Inr (success_response (repo_url cfg name) (pages_url_of cfg name)
                  (py_or sha_html sha_readme))"
proof -
  have e1: "create_repo cfg w name tr = (Inr True, snd s1)"
    using assms(10) by (simp add: s1_def prod_eq_iff)
  have e2: "push_file cfg w name ''index.html'' (html_content name) (snd s1) =
              (Inr (True, sha_html), snd s2)"
    using assms(11) by (simp add: s2_def prod_eq_iff)
  have e3: "push_file cfg w name ''README.md'' (readme w name task_id) (snd s2) =
              (Inr (True, sha_readme), snd s3)"
    using assms(12) by (simp add: s3_def prod_eq_iff)
  have e4: "push_file cfg w name ''LICENSE'' (mit_license cfg w) (snd s3) = (Inr lic, snd s4)"
    using assms(13) by (simp add: s4_def prod_eq_iff)
  have e5: "enable_pages cfg w name (snd s4) = (Inr pages_ok, snd s5)"
    using assms(14) by (simp add: s5_def prod_eq_iff)
  have "fst (handle cfg w (Some (JObj data)) tr) =
           Inr (success_response (repo_url cfg name) (pages_url_of cfg name)
                  (py_or sha_html sha_readme))"
    using assms(9) e1 e2 e3 e4 e5
    unfolding name_def task_id_def
    by (simp add: handle_def bind_io_def lift_io_def request_data_def return_io_def Let_def
        split: prod.splits)
  then show ?thesis
    using assms(8) by simp
qed

subsection \<open>Secret validation\<close>

text \<open>
  C1, as the code has it. For a request whose body is a JSON object: when
  \<^verbatim>\<open>data.get("secret")\<close>, which is \<^verbatim>\<open>None\<close> for a missing field, differs from
  \<^verbatim>\<open>SECRET\<close>, which is \<^verbatim>\<open>None\<close> when unset, the handler returns the error
  response with reason \<^verbatim>\<open>Invalid secret\<close> and the trace is unchanged, so no call
  has been made. When the secret is set, this covers every request whose field is
  another string, another value, or missing.
\<close>

theorem invalid_secret_rejected:
  assumes "body = Some (JObj data)"
  shows "(dict_get data ''secret'' JNull \<noteq> secret_value cfg \<longrightarrow>
            handle cfg w body tr = (Inr (error_response ''Invalid secret''), tr)) \<and>
         (SECRET cfg = Some s \<and> map_of data ''secret'' \<noteq> Some (JStr s) \<longrightarrow>
            handle cfg w body tr = (Inr (error_response ''Invalid secret''), tr))"
  using assms
  by (auto simp: handle_def request_data_def bind_lift_Inr return_io_def secret_value_def
      dict_get_def split: option.splits)

theorem invalid_secret_rejected_witness:
  "handle sample_config (world_of all_created)
     (Some (JObj [(''secret'', JStr ''wrong''), (''task'', JStr ''demo'')])) [] =
     (Inr (error_response ''Invalid secret''), []) \<and>
   handle sample_config (world_of all_created) (Some (JObj [(''task'', JStr ''demo'')])) [] =
     (Inr (error_response ''Invalid secret''), [])"
  using invalid_secret_rejected [where body = "Some (JObj [(''secret'', JStr ''wrong''), (''task'', JStr ''demo'')])"
      and data = "[(''secret'', JStr ''wrong''), (''task'', JStr ''demo'')]"
      and cfg = sample_config and w = "world_of all_created" and tr = "[]" and s = "''s1''"]
    invalid_secret_rejected [where body = "Some (JObj [(''task'', JStr ''demo'')])"
      and data = "[(''task'', JStr ''demo'')]"
      and cfg = sample_config and w = "world_of all_created" and tr = "[]" and s = "''s1''"]
  by (simp add: sample_config_def secret_value_def dict_get_def)

text \<open>
  With \<^verbatim>\<open>SECRET\<close> unset, a request without the field is not rejected: the run on
  the empty object makes its five calls to the platform and answers with success.
\<close>

theorem missing_secret_accepted_when_unset:
  "SECRET unset_secret_config = None \<and> map_of [] ''secret'' = (None :: json option) \<and>
   fst (handle unset_secret_config (world_of all_created) (Some (JObj [])) []) =
     Inr (success_response ''https://github.com/alice/tds_demo_task_1234''
            ''https://alice.github.io/tds_demo_task_1234/'' (JStr ''abc123'')) \<and>
   length (snd (handle unset_secret_config (world_of all_created) (Some (JObj [])) [])) = 5"
  by (simp add: handle_def step_defs unset_secret_config_def all_created_def)

subsection \<open>The success response\<close>

text \<open>
  C5, as the code has it. When the secret matches, the repository is created, the two
  required pushes succeed, and the LICENSE push and the hosting call return, the
  response has status \<^verbatim>\<open>success\<close>; its \<^verbatim>\<open>repo\<close> is the URL of the user's
  repository named \<^verbatim>\<open>tds_\<close>, the task, an underscore and the current time modulo
  10000 (a number from 0 to 9999); its \<^verbatim>\<open>pages_url\<close> is
  \<^verbatim>\<open>https://<user>.github.io/<repo>/\<close>; its \<^verbatim>\<open>commit\<close> is the sha of the page's
  push when that is truthy and the sha of the README's push otherwise. The task is
  \<^verbatim>\<open>demo_task\<close> when the request has none.
\<close>

theorem success_response_contents:
  fixes cfg w body tr data
  defines "task_id \<equiv> dict_get data ''task'' (JStr ''demo_task'')"
  defines "name \<equiv> repo_name_of w task_id"
  defines "s1 \<equiv> create_repo cfg w name tr"
  defines "s2 \<equiv> push_file cfg w name ''index.html'' (html_content name) (snd s1)"
  defines "s3 \<equiv> push_file cfg w name ''README.md'' (readme w name task_id) (snd s2)"
  defines "s4 \<equiv> push_file cfg w name ''LICENSE'' (mit_license cfg w) (snd s3)"
  defines "s5 \<equiv> enable_pages cfg w name (snd s4)"
  assumes "body = Some (JObj data)"
    and "dict_get data ''secret'' JNull = secret_value cfg"
    and "fst s1 = Inr True"
    and "fst s2 = Inr (True, sha_html)"
    and "fst s3 = Inr (True, sha_readme)"
    and "fst s4 = Inr lic"
    and "fst s5 = Inr pages_ok"
  shows "fst (handle cfg w body tr) =
           Inr (JObj [(''status'', JStr ''success''),
                      (''repo'',
                         JStr (''https://github.com/'' @ fmt_env (GITHUB_USER cfg) @ ''/'' @ name)),
                      (''pages_url'',
                         JStr (''https://'' @ fmt_env (GITHUB_USER cfg) @ ''.github.io/'' @ name @
                               ''/'')),
                      (''commit'', if truthy sha_html then sha_html else sha_readme)]) \<and>
         name = ''tds_'' @ fmt w task_id @ ''_'' @ str_int (unix_time w mod 10000) \<and>
         0 \<le> unix_time w mod 10000 \<and> unix_time w mod 10000 < 10000"
  using handle_success [of body data cfg w tr sha_html sha_readme lic pages_ok] assms(8-)
  unfolding s5_def s4_def s3_def s2_def s1_def name_def task_id_def
  by (simp add: success_response_def repo_url_def pages_url_of_def py_or_def repo_name_of_def)

theorem success_response_contents_witness:
  "fst (handle sample_config (world_of all_created) sample_body []) =
     Inr (JObj [(''status'', JStr ''success''),
                (''repo'', JStr ''https://github.com/alice/tds_demo_1234''),
                (''pages_url'', JStr ''https://alice.github.io/tds_demo_1234/''),
                (''commit'', JStr ''abc123'')]) \<and>
   fst (handle sample_config (world_of html_sha_missing) demo_body []) =
     Inr (JObj [(''status'', JStr ''success''),
                (''repo'', JStr ''https://github.com/alice/tds_demo_1234''),
                (''pages_url'', JStr ''https://alice.github.io/tds_demo_1234/''),
                (''commit'', JStr ''def456'')])"
  using success_response_contents [where cfg = sample_config and w = "world_of all_created"
      and body = sample_body and tr = "[]"
      and data = "[(''secret'', JStr ''s1''), (''task'', JStr ''demo''),
                   (''email'', JStr ''a@b.c''), (''evaluation_url'', JStr ''http://e'')]"
      and sha_html = "JStr ''abc123''" and sha_readme = "JStr ''abc123''"
      and lic = "(True, JStr ''abc123'')" and pages_ok = True]
    success_response_contents [where cfg = sample_config and w = "world_of html_sha_missing"
      and body = demo_body and tr = "[]"
      and data = "[(''secret'', JStr ''s1''), (''task'', JStr ''demo'')]"
      and sha_html = JNull and sha_readme = "JStr ''def456''"
      and lic = "(True, JNull)" and pages_ok = True]
  by (simp add: step_defs sample_defs)

text \<open>
  The secret matches, the repository is created and both pushes succeed, then the call
  that pushes the LICENSE raises: the exception leaves the handler after four calls,
  and there is no success response.
\<close>

theorem no_response_when_license_call_raises:
  "create_repo sample_config (world_of license_call_raises) ''tds_demo_1234'' [] =
     (Inr True, [creation_call sample_config ''tds_demo_1234'']) \<and>
   push_file sample_config (world_of license_call_raises) ''tds_demo_1234'' ''index.html''
       (html_content ''tds_demo_1234'') [creation_call sample_config ''tds_demo_1234''] =
     (Inr (True, JStr ''abc123''),
      [creation_call sample_config ''tds_demo_1234'',
       put_call sample_config ''tds_demo_1234'' ''index.html'' (html_content ''tds_demo_1234'') []]) \<and>
   fst (push_file sample_config (world_of license_call_raises) ''tds_demo_1234'' ''README.md''
          (readme (world_of license_call_raises) ''tds_demo_1234'' (JStr ''demo''))
          [creation_call sample_config ''tds_demo_1234'',
           put_call sample_config ''tds_demo_1234'' ''index.html''
             (html_content ''tds_demo_1234'') []]) =
     Inr (True, JStr ''def456'') \<and>
   fst (handle sample_config (world_of license_call_raises) demo_body []) = Inl RequestException \<and>
   length (snd (handle sample_config (world_of license_call_raises) demo_body [])) = 4"
  by (simp add: handle_def step_defs sample_defs creation_call_def put_call_def)

subsection \<open>The optional steps\<close>

text \<open>
  C6, as the code has it. \<^verbatim>\<open>enable_pages\<close> returns true exactly when its call is
  answered with 201 or 204. In the handler, once the repository is created and the
  pushes of \<^verbatim>\<open>index.html\<close> and \<^verbatim>\<open>README.md\<close> have succeeded, the response is
  the success response whatever the LICENSE push and the hosting call return: their
  results do not occur in it.
\<close>

theorem optional_steps_do_not_change_response:
  fixes cfg w body tr data
  defines "task_id \<equiv> dict_get data ''task'' (JStr ''demo_task'')"
  defines "name \<equiv> repo_name_of w task_id"
  defines "s1 \<equiv> create_repo cfg w name tr"
  defines "s2 \<equiv> push_file cfg w name ''index.html'' (html_content name) (snd s1)"
  defines "s3 \<equiv> push_file cfg w name ''README.md'' (readme w name task_id) (snd s2)"
  defines "s4 \<equiv> push_file cfg w name ''LICENSE'' (mit_license cfg w) (snd s3)"
  defines "s5 \<equiv> enable_pages cfg w name (snd s4)"
  shows "(respond w (t @ [pages_call cfg n]) = Responds r \<longrightarrow>
            enable_pages cfg w n t =
              (Inr (status_code r = 201 \<or> status_code r = 204), t @ [pages_call cfg n])) \<and>
         (body = Some (JObj data) \<and> dict_get data ''secret'' JNull = secret_value cfg \<and>
          fst s1 = Inr True \<and> fst s2 = Inr (True, sha_html) \<and> fst s3 = Inr (True, sha_readme) \<and>
          fst s4 = Inr (license_ok, license_sha) \<and> fst s5 = Inr pages_ok \<longrightarrow>
            fst (handle cfg w body tr) =
              Inr (success_response (repo_url cfg name) (pages_url_of cfg name)
                     (py_or sha_html sha_readme)))"
proof -
  have pages: "respond w (t @ [pages_call cfg n]) = Responds r \<longrightarrow>
            enable_pages cfg w n t =
              (Inr (status_code r = 201 \<or> status_code r = 204), t @ [pages_call cfg n])"
    by (simp add: enable_pages_def bind_io_def gh_request_def return_io_def pages_call_def)
  have "body = Some (JObj data) \<and> dict_get data ''secret'' JNull = secret_value cfg \<and>
          fst s1 = Inr True \<and> fst s2 = Inr (True, sha_html) \<and> fst s3 = Inr (True, sha_readme) \<and>
          fst s4 = Inr (license_ok, license_sha) \<and> fst s5 = Inr pages_ok \<longrightarrow>
            fst (handle cfg w body tr) =
              Inr (success_response (repo_url cfg name) (pages_url_of cfg name)
                     (py_or sha_html sha_readme))"
    using handle_success [of body data cfg w tr sha_html sha_readme "(license_ok, license_sha)"
        pages_ok]
    unfolding s5_def s4_def s3_def s2_def s1_def name_def task_id_def
    by simp
  with pages show ?thesis by simp
qed

theorem optional_steps_do_not_change_response_witness:
  "enable_pages sample_config (world_of (\<lambda>_. answer 500 None)) ''tds_demo_1234'' [] =
     (Inr False, [pages_call sample_config ''tds_demo_1234'']) \<and>
   fst (handle sample_config (world_of optional_steps_fail) demo_body []) =
     Inr (success_response ''https://github.com/alice/tds_demo_1234''
            ''https://alice.github.io/tds_demo_1234/'' (JStr ''abc123''))"
proof -
  have 1: "enable_pages sample_config (world_of (\<lambda>_. answer 500 None)) ''tds_demo_1234'' [] =
     (Inr False, [pages_call sample_config ''tds_demo_1234''])"
    using optional_steps_do_not_change_response [where cfg = sample_config
      and w = "world_of (\<lambda>_. answer 500 None)"
      and t = "[]" and n = "''tds_demo_1234''" and r = "\<lparr>status_code = 500, json_body = None\<rparr>"]
    by (simp add: world_of_def answer_def)
  have 2: "fst (handle sample_config (world_of optional_steps_fail) demo_body []) =
     Inr (success_response ''https://github.com/alice/tds_demo_1234''
            ''https://alice.github.io/tds_demo_1234/'' (JStr ''abc123''))"
    using optional_steps_do_not_change_response [where cfg = sample_config
      and w = "world_of optional_steps_fail"
      and body = demo_body and tr = "[]"
      and data = "[(''secret'', JStr ''s1''), (''task'', JStr ''demo'')]"
      and sha_html = "JStr ''abc123''" and sha_readme = "JStr ''def456''"
      and license_ok = False and license_sha = JNull and pages_ok = False]
    by (simp add: step_defs sample_defs)
  from 1 2 show ?thesis by simp
qed

text \<open>
  The hosting step fails by raising: the pushes have succeeded, the hosting call is
  the fifth call, and the exception leaves the handler.
\<close>

theorem no_response_when_hosting_call_raises:
  "create_repo sample_config (world_of hosting_call_raises) ''tds_demo_1234'' [] =
     (Inr True, [creation_call sample_config ''tds_demo_1234'']) \<and>
   push_file sample_config (world_of hosting_call_raises) ''tds_demo_1234'' ''index.html''
       (html_content ''tds_demo_1234'') [creation_call sample_config ''tds_demo_1234''] =
     (Inr (True, JStr ''abc123''),
      [creation_call sample_config ''tds_demo_1234'',
       put_call sample_config ''tds_demo_1234'' ''index.html'' (html_content ''tds_demo_1234'') []]) \<and>
   fst (push_file sample_config (world_of hosting_call_raises) ''tds_demo_1234'' ''README.md''
          (readme (world_of hosting_call_raises) ''tds_demo_1234'' (JStr ''demo''))
          [creation_call sample_config ''tds_demo_1234'',
           put_call sample_config ''tds_demo_1234'' ''index.html''
             (html_content ''tds_demo_1234'') []]) =
     Inr (True, JStr ''def456'') \<and>
   respond (world_of hosting_call_raises)
     (snd (handle sample_config (world_of hosting_call_raises) demo_body [])) = Raises \<and>
   last (snd (handle sample_config (world_of hosting_call_raises) demo_body [])) =
     pages_call sample_config ''tds_demo_1234'' \<and>
   fst (handle sample_config (world_of hosting_call_raises) demo_body []) = Inl RequestException \<and>
   length (snd (handle sample_config (world_of hosting_call_raises) demo_body [])) = 5"
  by (simp add: handle_def step_defs sample_defs creation_call_def put_call_def pages_call_def)

subsection \<open>Success without a commit\<close>

text \<open>
  C10. When the PUT is answered with 200 or 201 and a body that is not JSON,
  \<^verbatim>\<open>push_file\<close> returns success with no sha. The handler then answers with status
  \<^verbatim>\<open>success\<close> and a null commit: in the sample run every call is answered with
  201 and no JSON.
\<close>

theorem success_without_commit:
  "(respond w (tr @ [put_call cfg name filename content []]) = Responds r \<and>
    status_code r \<in> {200, 201} \<and> json_body r = None \<longrightarrow>
      push_file cfg w name filename content tr =
        (Inr (True, JNull), tr @ [put_call cfg name filename content []])) \<and>
   fst (handle sample_config (world_of unparseable) demo_body []) =
     Inr (success_response ''https://github.com/alice/tds_demo_1234''
            ''https://alice.github.io/tds_demo_1234/'' JNull)"
proof -
  have 1: "respond w (tr @ [put_call cfg name filename content []]) = Responds r \<and>
    status_code r \<in> {200, 201} \<and> json_body r = None \<longrightarrow>
      push_file cfg w name filename content tr =
        (Inr (True, JNull), tr @ [put_call cfg name filename content []])"
    by (auto simp: push_file_def Let_def bind_io_def gh_request_def return_io_def
        put_call_def response_sha_def)
  have 2: "fst (handle sample_config (world_of unparseable) demo_body []) =
     Inr (success_response ''https://github.com/alice/tds_demo_1234''
            ''https://alice.github.io/tds_demo_1234/'' JNull)"
    by (simp add: handle_def step_defs sample_defs)
  from 1 2 show ?thesis by simp
qed

theorem success_without_commit_witness:
  "push_file sample_config (world_of unparseable) ''tds_demo_1234'' ''index.html''
     (html_content ''tds_demo_1234'') [] =
   (Inr (True, JNull),
    [put_call sample_config ''tds_demo_1234'' ''index.html'' (html_content ''tds_demo_1234'') []])"
  using success_without_commit [where w = "world_of unparseable" and tr = "[]"
      and cfg = sample_config and name = "''tds_demo_1234''" and filename = "''index.html''"
      and content = "html_content ''tds_demo_1234''"
      and r = "\<lparr>status_code = 201, json_body = None\<rparr>"]
  by (simp add: world_of_def unparseable_def answer_def)

section \<open>The response and the notifier\<close>

lemma io_agree_return: "io_agree (return_io x) (return_io x)"
  by (simp add: io_agree_def return_io_def)

lemma io_agree_lift: "io_agree (lift_io v) (lift_io v)"
  by (simp add: io_agree_def lift_io_def)

lemma io_agree_bind:
  assumes "io_agree m m'" and "\<And>x. io_agree (f x) (f' x)"
  shows "io_agree (bind_io m f) (bind_io m' f')"
  unfolding io_agree_def
proof (intro allI impI)
  fix tr
  assume p: "list_all is_platform_call tr"
  from assms(1) p have 1: "m' tr = m tr" "list_all is_platform_call (snd (m tr))"
    by (auto simp: io_agree_def)
  show "bind_io m' f' tr = bind_io m f tr \<and> list_all is_platform_call (snd (bind_io m f tr))"
  proof (cases "m tr")
    case (Pair v tr')
    then show ?thesis
      using 1 assms(2) by (cases v) (auto simp: bind_io_def io_agree_def)
  qed
qed

lemma io_agree_gh_request:
  assumes "\<forall>t. list_all is_platform_call t \<longrightarrow> r' t = respond w t"
  shows "io_agree (gh_request cfg w method url payload)
           (gh_request cfg (w\<lparr>respond := r'\<rparr>) method url payload)"
  using assms by (auto simp: io_agree_def gh_request_def Let_def split: outcome.splits)

lemma io_agree_create_repo:
  assumes "\<forall>t. list_all is_platform_call t \<longrightarrow> r' t = respond w t"
  shows "io_agree (create_repo cfg w name) (create_repo cfg (w\<lparr>respond := r'\<rparr>) name)"
  unfolding create_repo_def
  by (intro io_agree_bind io_agree_gh_request io_agree_return assms)

lemma io_agree_enable_pages:
  assumes "\<forall>t. list_all is_platform_call t \<longrightarrow> r' t = respond w t"
  shows "io_agree (enable_pages cfg w name) (enable_pages cfg (w\<lparr>respond := r'\<rparr>) name)"
  unfolding enable_pages_def
  by (intro io_agree_bind io_agree_gh_request io_agree_return assms)

lemma io_agree_push_file:
  assumes "\<forall>t. list_all is_platform_call t \<longrightarrow> r' t = respond w t"
  shows "io_agree (push_file cfg w name filename content)
           (push_file cfg (w\<lparr>respond := r'\<rparr>) name filename content)"
  unfolding push_file_def Let_def
  by (intro io_agree_bind io_agree_gh_request assms)
    (auto intro!: io_agree_bind io_agree_gh_request io_agree_return io_agree_lift assms
      split: sum.splits)

lemma io_same_result_bind:
  assumes "io_agree m m'" and "\<And>x. io_same_result (f x) (f' x)"
  shows "io_same_result (bind_io m f) (bind_io m' f')"
  unfolding io_same_result_def
proof (intro allI impI)
  fix tr
  assume p: "list_all is_platform_call tr"
  from assms(1) p have 1: "m' tr = m tr" "list_all is_platform_call (snd (m tr))"
    by (auto simp: io_agree_def)
  show "fst (bind_io m' f' tr) = fst (bind_io m f tr)"
  proof (cases "m tr")
    case (Pair v tr')
    then show ?thesis
      using 1 assms(2) by (cases v) (auto simp: bind_io_def io_same_result_def)
  qed
qed

text \<open>A step that cannot raise and whose result is dropped has no say in what follows.\<close>

lemma io_same_result_dropped:
  assumes "\<And>tr. \<exists>x. fst (n tr) = Inr x" and "\<And>tr. \<exists>x. fst (n' tr) = Inr x"
  shows "io_same_result (bind_io n (\<lambda>_. return_io v)) (bind_io n' (\<lambda>_. return_io v))"
  unfolding io_same_result_def
proof (intro allI impI)
  fix tr
  obtain x where "fst (n tr) = Inr x"
    using assms(1) by blast
  moreover obtain x' where "fst (n' tr) = Inr x'"
    using assms(2) by blast
  ultimately show "fst (bind_io n' (\<lambda>_. return_io v) tr) = fst (bind_io n (\<lambda>_. return_io v) tr)"
    by (cases "n tr"; cases "n' tr") (simp add: bind_io_def return_io_def)
qed

lemma io_same_result_return: "io_same_result (return_io x) (return_io x)"
  by (simp add: io_same_result_def)

lemma io_same_result_if:
  "io_same_result a a' \<Longrightarrow> io_same_result b b' \<Longrightarrow>
   io_same_result (if c then a else b) (if c then a' else b')"
  by simp

lemma io_same_result_prod:
  "(\<And>a b. io_same_result (f a b) (f' a b)) \<Longrightarrow>
   io_same_result (case x of (a, b) \<Rightarrow> f a b) (case x of (a, b) \<Rightarrow> f' a b)"
  by (cases x) simp

lemma fmt_same: "fmt (w\<lparr>respond := r'\<rparr>) t = fmt w t"
  by (simp add: fmt_def split: json.splits)

lemma same_names:
  "repo_name_of (w\<lparr>respond := r'\<rparr>) t = repo_name_of w t"
  "readme (w\<lparr>respond := r'\<rparr>) n t = readme w n t"
  "mit_license cfg (w\<lparr>respond := r'\<rparr>) = mit_license cfg w"
  by (simp_all add: repo_name_of_def readme_def mit_license_def fmt_same)

lemma notify_step_returns:
  "\<exists>x. fst ((if c then (\<lambda>tr. case notify_evaluator w u p m tr of (b, tr') \<Rightarrow> (Inr b, tr'))
             else return_io False) tr) = Inr x"
  by (auto simp: return_io_def split: prod.splits)

lemma platform_no_eval: "list_all is_platform_call t \<Longrightarrow> \<not> list_ex is_eval_post t"
proof (induction t)
  case Nil
  show ?case by simp
next
  case (Cons e t)
  then show ?case by (cases e) simp_all
qed

text \<open>
  C7. Take two runs of the handler on the same request, from the same platform trace,
  in surroundings that differ only in what is answered once something other than a
  platform call is in the trace, that is, in how the evaluator answers. The two runs
  return the same response (or raise the same exception): the outcome of the
  notification does not reach the response.
\<close>

theorem response_independent_of_notification:
  assumes same: "\<forall>t. list_all is_platform_call t \<longrightarrow> r' t = respond w t"
    and start: "list_all is_platform_call tr"
  shows "fst (handle cfg (w\<lparr>respond := r'\<rparr>) body tr) = fst (handle cfg w body tr)"
proof -
  have "io_same_result (handle cfg w body) (handle cfg (w\<lparr>respond := r'\<rparr>) body)"
    unfolding handle_def Let_def same_names
    by (intro io_same_result_dropped io_same_result_bind io_same_result_if io_same_result_prod
        io_same_result_return io_agree_lift io_agree_create_repo io_agree_push_file
        io_agree_enable_pages notify_step_returns same)
  then show ?thesis
    using start by (simp add: io_same_result_def)
qed

text \<open>
  In the first sample run the evaluator answers the first POST with 201; in the second
  it never answers and all four attempts are made. The response is the same.
\<close>

theorem response_independent_of_notification_witness:
  "fst (handle sample_config (world_of all_created\<lparr>respond := deaf_evaluator\<rparr>) sample_body []) =
     fst (handle sample_config (world_of all_created) sample_body []) \<and>
   fst (handle sample_config (world_of all_created) sample_body []) =
     Inr (success_response ''https://github.com/alice/tds_demo_1234''
            ''https://alice.github.io/tds_demo_1234/'' (JStr ''abc123'')) \<and>
   attempts (snd (handle sample_config (world_of all_created) sample_body [])) = 1 \<and>
   attempts (snd (handle sample_config (world_of all_created\<lparr>respond := deaf_evaluator\<rparr>)
                    sample_body [])) = 4"
proof -
  have same: "\<forall>t. list_all is_platform_call t \<longrightarrow>
                deaf_evaluator t = respond (world_of all_created) t"
    by (simp add: deaf_evaluator_def platform_no_eval world_of_def all_created_def)
  have 1: "fst (handle sample_config (world_of all_created) sample_body []) =
     Inr (success_response ''https://github.com/alice/tds_demo_1234''
            ''https://alice.github.io/tds_demo_1234/'' (JStr ''abc123''))"
    by (simp add: handle_def step_defs sample_defs)
  have 2: "attempts (snd (handle sample_config (world_of all_created) sample_body [])) = 1"
    by (simp add: handle_def step_defs sample_defs attempts_def)
  have 3: "attempts (snd (handle sample_config (world_of all_created\<lparr>respond := deaf_evaluator\<rparr>)
                    sample_body [])) = 4"
    by (simp add: handle_def step_defs sample_defs attempts_def deaf_evaluator_def)
  show ?thesis
    using response_independent_of_notification [OF same, of "[]" sample_config sample_body] 1 2 3
    by simp
qed

section \<open>An unset secret\<close>

lemma io_extends_return: "io_extends (return_io x)"
  by (simp add: io_extends_def return_io_def)

lemma io_extends_lift: "io_extends (lift_io v)"
  by (simp add: io_extends_def lift_io_def)

lemma io_extends_bind:
  assumes "io_extends m" and "\<And>x. io_extends (f x)"
  shows "io_extends (bind_io m f)"
  unfolding io_extends_def
proof
  fix tr
  have 1: "prefix tr (snd (m tr))"
    using assms(1) by (simp add: io_extends_def)
  show "prefix tr (snd (bind_io m f tr))"
  proof (cases "m tr")
    case (Pair v tr')
    show ?thesis
    proof (cases v)
      case (Inl e)
      then show ?thesis
        using 1 Pair by (simp add: bind_io_def)
    next
      case (Inr x)
      have "prefix tr' (snd (f x tr'))"
        using assms(2) by (simp add: io_extends_def)
      then show ?thesis
        using 1 Pair Inr by (auto simp: bind_io_def)
    qed
  qed
qed

lemma io_extends_if: "io_extends a \<Longrightarrow> io_extends b \<Longrightarrow> io_extends (if c then a else b)"
  by simp

lemma io_extends_prod:
  "(\<And>a b. io_extends (f a b)) \<Longrightarrow> io_extends (case x of (a, b) \<Rightarrow> f a b)"
  by (cases x) simp

lemma io_extends_gh_request: "io_extends (gh_request cfg w method url payload)"
  by (auto simp: io_extends_def gh_request_def Let_def split: outcome.splits)

lemma io_extends_push_file: "io_extends (push_file cfg w name filename content)"
  unfolding push_file_def Let_def
  by (intro io_extends_bind io_extends_gh_request)
    (auto intro!: io_extends_bind io_extends_gh_request io_extends_return io_extends_lift
      split: sum.splits)

lemma io_extends_enable_pages: "io_extends (enable_pages cfg w name)"
  unfolding enable_pages_def
  by (intro io_extends_bind io_extends_gh_request io_extends_return)

lemma prefix_notify_loop: "prefix tr (snd (notify_loop w u p ds tr))"
proof (induction ds arbitrary: tr)
  case Nil
  show ?case by simp
next
  case (Cons d ds)
  have "prefix tr (snd (notify_loop w u p ds ((tr @ [EvalPost u p]) @ [Sleep d])))"
    using Cons.IH [of "(tr @ [EvalPost u p]) @ [Sleep d]"] by (metis append.assoc append_prefixD)
  then show ?case
    by (auto simp: Let_def split: outcome.splits)
qed

lemma io_extends_notify:
  "io_extends (\<lambda>tr. case notify_evaluator w u p m tr of (b, tr') \<Rightarrow> (Inr b, tr'))"
  using prefix_notify_loop [of _ w u p delays]
  by (simp add: io_extends_def notify_evaluator_def split: prod.splits) (metis snd_conv)

lemma io_avoids_return: "x \<noteq> v \<Longrightarrow> io_avoids v (return_io x)"
  by (simp add: io_avoids_def return_io_def)

lemma io_avoids_bind: "(\<And>x. io_avoids v (f x)) \<Longrightarrow> io_avoids v (bind_io m f)"
  by (auto simp: io_avoids_def bind_io_def split: prod.splits sum.splits)

lemma io_avoids_if: "io_avoids v a \<Longrightarrow> io_avoids v b \<Longrightarrow> io_avoids v (if c then a else b)"
  by simp

lemma io_avoids_prod:
  "(\<And>a b. io_avoids v (f a b)) \<Longrightarrow> io_avoids v (case x of (a, b) \<Rightarrow> f a b)"
  by (cases x) simp

lemma responses_differ:
  "error_response ''Failed to create repo'' \<noteq> error_response ''Invalid secret''"
  "error_response ''Failed to push index.html'' \<noteq> error_response ''Invalid secret''"
  "error_response ''Failed to push README.md'' \<noteq> error_response ''Invalid secret''"
  "success_response r p c \<noteq> error_response ''Invalid secret''"
  by (simp_all add: error_response_def success_response_def)

lemma create_repo_trace:
  "\<exists>v. create_repo cfg w name tr = (v, tr @ [creation_call cfg name])"
  by (auto simp: create_repo_def bind_io_def gh_request_def return_io_def creation_call_def
      Let_def split: outcome.splits)

text \<open>
  Past the validation the handler is the creation of the repository followed by the
  rest, which only adds to the trace and never answers \<^verbatim>\<open>Invalid secret\<close>.
\<close>

lemma handle_after_validation:
  assumes "body = Some (JObj data)" and "dict_get data ''secret'' JNull = secret_value cfg"
  shows "\<exists>K. handle cfg w body =
               bind_io (create_repo cfg w
                          (repo_name_of w (dict_get data ''task'' (JStr ''demo_task'')))) K \<and>
             (\<forall>x. io_extends (K x)) \<and>
             (\<forall>x. io_avoids (error_response ''Invalid secret'') (K x))"
  unfolding handle_def Let_def
  apply (simp add: assms request_data_def bind_lift_Inr)
  apply (intro exI conjI)
    apply (rule refl)
   apply (intro allI io_extends_bind io_extends_if io_extends_prod io_extends_return
      io_extends_push_file io_extends_enable_pages io_extends_notify)
  apply (intro allI io_avoids_bind io_avoids_if io_avoids_prod io_avoids_return responses_differ)
  done

text \<open>
  C8. When \<^verbatim>\<open>SECRET\<close> is unset and the body has no \<^verbatim>\<open>secret\<close> key, the
  comparison is of \<^verbatim>\<open>None\<close> with \<^verbatim>\<open>None\<close>: the handler does not answer
  \<^verbatim>\<open>Invalid secret\<close>, and its first act is the call that creates the repository.
\<close>

theorem unset_secret_accepts_missing_field:
  assumes "SECRET cfg = None" and "body = Some (JObj data)" and "map_of data ''secret'' = None"
  shows "fst (handle cfg w body tr) \<noteq> Inr (error_response ''Invalid secret'') \<and>
         prefix
           (tr @ [creation_call cfg (repo_name_of w (dict_get data ''task'' (JStr ''demo_task'')))])
           (snd (handle cfg w body tr))"
proof -
  let ?name = "repo_name_of w (dict_get data ''task'' (JStr ''demo_task''))"
  have pass: "dict_get data ''secret'' JNull = secret_value cfg"
    using assms(1,3) by (simp add: dict_get_def secret_value_def)
  obtain K where K: "handle cfg w body = bind_io (create_repo cfg w ?name) K"
    "\<And>x. io_extends (K x)" "\<And>x. io_avoids (error_response ''Invalid secret'') (K x)"
    using handle_after_validation [OF assms(2) pass] by blast
  obtain v where v: "create_repo cfg w ?name tr = (v, tr @ [creation_call cfg ?name])"
    using create_repo_trace by blast
  show ?thesis
  proof (cases v)
    case (Inl e)
    then show ?thesis
      using K(1) v by (simp add: bind_io_def)
  next
    case (Inr x)
    then have "handle cfg w body tr = K x (tr @ [creation_call cfg ?name])"
      using K(1) v by (simp add: bind_io_def)
    then show ?thesis
      using K(2) [of x] K(3) [of x] by (simp add: io_extends_def io_avoids_def)
  qed
qed

theorem unset_secret_accepts_missing_field_witness:
  "fst (handle unset_secret_config (world_of all_created) (Some (JObj [(''task'', JStr ''demo'')])) [])
     \<noteq> Inr (error_response ''Invalid secret'') \<and>
   prefix [creation_call unset_secret_config ''tds_demo_1234'']
     (snd (handle unset_secret_config (world_of all_created)
             (Some (JObj [(''task'', JStr ''demo'')])) [])) \<and>
   fst (handle unset_secret_config (world_of all_created) (Some (JObj [(''task'', JStr ''demo'')])) []) =
     Inr (success_response ''https://github.com/alice/tds_demo_1234''
            ''https://alice.github.io/tds_demo_1234/'' (JStr ''abc123''))"
proof -
  have name: "repo_name_of (world_of all_created)
                (dict_get [(''task'', JStr ''demo'')] ''task'' (JStr ''demo_task'')) =
              ''tds_demo_1234''"
    by (simp add: repo_name_of_def world_of_def dict_get_def fmt_def sample_suffix)
  have run: "fst (handle unset_secret_config (world_of all_created)
                    (Some (JObj [(''task'', JStr ''demo'')])) []) =
     Inr (success_response ''https://github.com/alice/tds_demo_1234''
            ''https://alice.github.io/tds_demo_1234/'' (JStr ''abc123''))"
    by (simp add: handle_def step_defs unset_secret_config_def all_created_def)
  show ?thesis
    using unset_secret_accepts_missing_field [of unset_secret_config
        "Some (JObj [(''task'', JStr ''demo'')])" "[(''task'', JStr ''demo'')]"
        "world_of all_created" "[]"]
      name run
    by (simp add: unset_secret_config_def)
qed

end
